theory Spec2Isabelle
  imports Complex_Main "HOL-Library.Word"
begin

section \<open>JavaScript strings\<close>

text \<open>
  A JavaScript string is a sequence of 16-bit code units. The literals of \<^verbatim>\<open>App.js\<close> are
  ASCII, so \<open>js\<close> embeds an Isabelle literal as the code units of its characters.
\<close>

type_synonym code_unit = "16 word"
type_synonym jsstring = "code_unit list"

definition js :: "string \<Rightarrow> jsstring" where
  "js s = map of_char s"

text \<open>
  The code units that \<^verbatim>\<open>String.prototype.trim\<close> strips and that the class \<^verbatim>\<open>\s\<close> of a
  regular expression matches (ECMAScript \<^verbatim>\<open>WhiteSpace\<close> and \<^verbatim>\<open>LineTerminator\<close>): TAB, LF, VT, FF,
  CR, SPACE, NBSP, U+1680, U+2000 to U+200A, U+2028, U+2029, U+202F, U+205F, U+3000, U+FEFF.
\<close>

definition is_space :: "code_unit \<Rightarrow> bool" where
  "is_space c \<longleftrightarrow>
     c = 0x09 \<or> c = 0x0A \<or> c = 0x0B \<or> c = 0x0C \<or> c = 0x0D \<or> c = 0x20 \<or> c = 0xA0 \<or>
     c = 0x1680 \<or> (0x2000 \<le> c \<and> c \<le> 0x200A) \<or> c = 0x2028 \<or> c = 0x2029 \<or>
     c = 0x202F \<or> c = 0x205F \<or> c = 0x3000 \<or> c = 0xFEFF"

definition trim :: "jsstring \<Rightarrow> jsstring" where
  "trim s = rev (dropWhile is_space (rev (dropWhile is_space s)))"

text \<open>\<^verbatim>\<open>s.startsWith(t)\<close> and \<^verbatim>\<open>s.includes(t)\<close> (\<open>includes_str\<close>): \<open>t\<close> occurs in
  \<open>s\<close> at some position.\<close>

fun startsWith :: "jsstring \<Rightarrow> jsstring \<Rightarrow> bool" where
  "startsWith s [] = True"
| "startsWith [] (d # t) = False"
| "startsWith (c # s) (d # t) = (c = d \<and> startsWith s t)"

fun includes_str :: "jsstring \<Rightarrow> jsstring \<Rightarrow> bool" where
  "includes_str [] t = (t = [])"
| "includes_str (c # s) t = (startsWith (c # s) t \<or> includes_str s t)"

section \<open>Regular expressions\<close>

text \<open>
  The fragment of regular expressions that \<^verbatim>\<open>emailRegex\<close> is written in: character classes,
  sequence and \<^verbatim>\<open>+\<close>. \<open>Nothing\<close>, \<open>Empty\<close>, \<open>Alt\<close> and \<open>Star\<close> are what the derivatives of
  such an expression are made of. The expression of the source is anchored at both ends
  (\<^verbatim>\<open>^...$\<close>, no flags), so \<^verbatim>\<open>test\<close> decides whether the whole string is in its language.
\<close>

datatype regex =
    Nothing
  | Empty
  | Class "code_unit \<Rightarrow> bool"
  | Alt regex regex
  | Seq regex regex
  | Star regex

definition Plus :: "regex \<Rightarrow> regex" where
  "Plus r = Seq r (Star r)"

fun nullable :: "regex \<Rightarrow> bool" where
  "nullable Nothing = False"
| "nullable Empty = True"
| "nullable (Class p) = False"
| "nullable (Alt a b) = (nullable a \<or> nullable b)"
| "nullable (Seq a b) = (nullable a \<and> nullable b)"
| "nullable (Star a) = True"

fun deriv :: "code_unit \<Rightarrow> regex \<Rightarrow> regex" where
  "deriv c Nothing = Nothing"
| "deriv c Empty = Nothing"
| "deriv c (Class p) = (if p c then Empty else Nothing)"
| "deriv c (Alt a b) = Alt (deriv c a) (deriv c b)"
| "deriv c (Seq a b) =
     (if nullable a then Alt (Seq (deriv c a) b) (deriv c b) else Seq (deriv c a) b)"
| "deriv c (Star a) = Seq (deriv c a) (Star a)"

fun test :: "regex \<Rightarrow> jsstring \<Rightarrow> bool" where
  "test r [] = nullable r"
| "test r (c # s) = test (deriv c r) s"

text \<open>The language of an expression, against which \<open>test\<close> is justified below.\<close>

inductive_set star :: "jsstring set \<Rightarrow> jsstring set" for A :: "jsstring set" where
  star_nil: "[] \<in> star A"
| star_app: "u \<in> A \<Longrightarrow> v \<in> star A \<Longrightarrow> u @ v \<in> star A"

fun lang :: "regex \<Rightarrow> jsstring set" where
  "lang Nothing = {}"
| "lang Empty = {[]}"
| "lang (Class p) = {[c] | c. p c}"
| "lang (Alt a b) = lang a \<union> lang b"
| "lang (Seq a b) = {u @ v | u v. u \<in> lang a \<and> v \<in> lang b}"
| "lang (Star a) = star (lang a)"

section \<open>Form validation utilities\<close>

text \<open>
  \<^verbatim>\<open>/^[^\s@]+@[^\s@]+\.[^\s@]+$/\<close>: the class \<^verbatim>\<open>[^\s@]\<close> is \<open>not_space_at\<close>, U+0040 is the
  at sign and U+002E the full stop.
\<close>

definition not_space_at :: "code_unit \<Rightarrow> bool" where
  "not_space_at c \<longleftrightarrow> \<not> (is_space c \<or> c = 0x40)"

definition emailRegex :: regex where
  "emailRegex =
     Seq (Plus (Class not_space_at))
       (Seq (Class (\<lambda>c. c = 0x40))
         (Seq (Plus (Class not_space_at))
           (Seq (Class (\<lambda>c. c = 0x2E))
             (Plus (Class not_space_at)))))"

definition validateEmail :: "jsstring \<Rightarrow> bool" where
  "validateEmail email = test emailRegex email"

text \<open>
  The regular expression of the source read as a shape: a local part, an at sign, a domain,
  a full stop and a last part, each part one or more code units of \<^verbatim>\<open>[^\s@]\<close>.
\<close>

definition email_shape :: "jsstring \<Rightarrow> bool" where
  "email_shape e \<longleftrightarrow>
     (\<exists>l d t. e = l @ [0x40] @ d @ [0x2E] @ t \<and>
        l \<noteq> [] \<and> list_all not_space_at l \<and>
        d \<noteq> [] \<and> list_all not_space_at d \<and>
        t \<noteq> [] \<and> list_all not_space_at t)"

text \<open>
  The pattern in the words of the specification: one or more non-whitespace non-@ characters,
  "@", one or more non-whitespace non-@ characters, ".", one or more non-whitespace
  characters. The last part may hold an at sign here.
\<close>

definition spec_email_shape :: "jsstring \<Rightarrow> bool" where
  "spec_email_shape e \<longleftrightarrow>
     (\<exists>l d t. e = l @ [0x40] @ d @ [0x2E] @ t \<and>
        l \<noteq> [] \<and> list_all not_space_at l \<and>
        d \<noteq> [] \<and> list_all not_space_at d \<and>
        t \<noteq> [] \<and> list_all (\<lambda>c. \<not> is_space c) t)"

text \<open>
  The form data a \<^verbatim>\<open>StudentForm\<close> holds: four strings, each initialised to the field of the
  student being edited or to the empty string.
\<close>

record form_data =
  name :: jsstring
  email :: jsstring
  course :: jsstring
  profileImage :: jsstring

text \<open>
  The \<^verbatim>\<open>errors\<close> object of \<^verbatim>\<open>validateStudent\<close>: its properties in insertion order, each key
  assigned at most once. A string is falsy exactly when it is empty, so \<^verbatim>\<open>!s\<close> is \<open>s = []\<close>.
\<close>

type_synonym error_map = "(string \<times> string) list"

definition set_prop :: "error_map \<Rightarrow> string \<Rightarrow> string \<Rightarrow> error_map" where
  "set_prop obj k v =
     (if k \<in> set (map fst obj)
      then map (\<lambda>(k', v'). if k' = k then (k', v) else (k', v')) obj
      else obj @ [(k, v)])"

definition get_error :: "error_map \<Rightarrow> string \<Rightarrow> string option" where
  "get_error obj k = map_of obj k"

definition keys :: "error_map \<Rightarrow> string list" where
  "keys obj = map fst obj"

definition validateStudent :: "'a form_data_scheme \<Rightarrow> error_map" where
  "validateStudent student =
     (let errors = [];
          errors = (if trim (name student) = []
                    then set_prop errors ''name'' ''Name is required'' else errors);
          errors = (if trim (email student) = []
                    then set_prop errors ''email'' ''Email is required''
                    else if \<not> validateEmail (email student)
                    then set_prop errors ''email'' ''Please enter a valid email address''
                    else errors);
          errors = (if course student = []
                    then set_prop errors ''course'' ''Please select a course'' else errors)
      in errors)"

section \<open>Students and the student API\<close>

text \<open>
  A student is the form data with an id. \<^verbatim>\<open>{ ...student, id: i }\<close> is \<open>with_id student i\<close>. Ids
  are the integers \<^verbatim>\<open>Date.now()\<close> returns (milliseconds since the epoch).
\<close>

record student = form_data +
  student_id :: int

definition with_id :: "'a form_data_scheme \<Rightarrow> int \<Rightarrow> student" where
  "with_id student i =
     \<lparr>name = name student, email = email student, course = course student,
      profileImage = profileImage student, student_id = i\<rparr>"

text \<open>
  \<^verbatim>\<open>StudentAPI.addStudent\<close> waits on a timer and then reads the clock: \<open>now\<close> is what
  \<^verbatim>\<open>Date.now()\<close> returns at that moment. \<^verbatim>\<open>StudentAPI.updateStudent\<close> waits and returns its
  argument.
\<close>

definition addStudent :: "int \<Rightarrow> 'a form_data_scheme \<Rightarrow> student" where
  "addStudent now student = with_id student now"

definition updateStudent :: "student \<Rightarrow> student" where
  "updateStudent updatedStudent = updatedStudent"

section \<open>The filtered projection\<close>

text \<open>
  \<^verbatim>\<open>filteredStudents\<close>. \<^verbatim>\<open>String.prototype.toLowerCase\<close> follows the Unicode case mapping,
  which is no part of the repository: it is the parameter \<open>toLowerCase\<close>. \<open>toLowerCase_ascii\<close>
  is that mapping on strings of Basic Latin letters, for concrete inputs; \<open>toLowerCase_js\<close>
  below is the mapping on Basic Latin and Greek.
\<close>

definition filteredStudents ::
    "(jsstring \<Rightarrow> jsstring) \<Rightarrow> student list \<Rightarrow> jsstring \<Rightarrow> student list" where
  "filteredStudents toLowerCase students searchTerm =
     (if searchTerm = [] then students
      else filter (\<lambda>student.
             includes_str (toLowerCase (name student)) (toLowerCase searchTerm) \<or>
             includes_str (toLowerCase (email student)) (toLowerCase searchTerm) \<or>
             includes_str (toLowerCase (course student)) (toLowerCase searchTerm))
           students)"

definition toLowerCase_ascii :: "jsstring \<Rightarrow> jsstring" where
  "toLowerCase_ascii s = map (\<lambda>c. if 0x41 \<le> c \<and> c \<le> 0x5A then c + 0x20 else c) s"















section \<open>The dashboard\<close>

text \<open>
  The state the dashboard's handlers read and write: the student list of the context, and
  the component's own \<^verbatim>\<open>showForm\<close>, \<^verbatim>\<open>editingStudent\<close> (\<open>None\<close> for \<^verbatim>\<open>null\<close>) and the
  context's \<^verbatim>\<open>error\<close>.
\<close>

record dashboard =
  students :: "student list"
  showForm :: bool
  editingStudent :: "student option"
  error :: "string option"

definition handleAddStudent :: "dashboard \<Rightarrow> dashboard" where
  "handleAddStudent st = st\<lparr>editingStudent := None, showForm := True\<rparr>"

definition handleEditStudent :: "student \<Rightarrow> dashboard \<Rightarrow> dashboard" where
  "handleEditStudent student st = st\<lparr>editingStudent := Some student, showForm := True\<rparr>"

text \<open>
  \<^verbatim>\<open>handleSaveStudent\<close>: nothing in its \<^verbatim>\<open>try\<close> block throws, so the \<^verbatim>\<open>catch\<close> branch has no
  counterpart here. \<open>now\<close> is the clock reading of \<open>addStudent\<close>.
\<close>

definition handleSaveStudent :: "int \<Rightarrow> form_data \<Rightarrow> dashboard \<Rightarrow> dashboard" where
  "handleSaveStudent now studentData st =
     (case editingStudent st of
        Some editing \<Rightarrow>
          (let updatedStudent = updateStudent (with_id studentData (student_id editing))
           in st\<lparr>students :=
                   map (\<lambda>s. if student_id s = student_id editing then updatedStudent else s)
                     (students st),
                 showForm := False, editingStudent := None\<rparr>)
      | None \<Rightarrow>
          (let newStudent = addStudent now studentData
           in st\<lparr>students := students st @ [newStudent],
                 showForm := False, editingStudent := None\<rparr>))"

text \<open>A run of add flows: each opens the form in create mode and saves at a clock reading.\<close>

fun add_saves :: "(int \<times> form_data) list \<Rightarrow> dashboard \<Rightarrow> dashboard" where
  "add_saves [] st = st"
| "add_saves ((now, studentData) # rest) st =
     add_saves rest (handleSaveStudent now studentData (handleAddStudent st))"

text \<open>
  The state of a \<^verbatim>\<open>StudentForm\<close> and its \<^verbatim>\<open>handleSubmit\<close>, with \<^verbatim>\<open>onSave\<close> bound to
  \<open>handleSaveStudent\<close> as the dashboard binds it. \<^verbatim>\<open>isSubmitting\<close> is set during the save and
  reset in the \<^verbatim>\<open>finally\<close> block.
\<close>

record form_state =
  formData :: form_data
  errors :: error_map
  isSubmitting :: bool

definition handleSubmit :: "int \<Rightarrow> form_state \<Rightarrow> dashboard \<Rightarrow> form_state \<times> dashboard" where
  "handleSubmit now form st =
     (let validationErrors = validateStudent (formData form)
      in if length (keys validationErrors) > 0
         then (form\<lparr>errors := validationErrors\<rparr>, st)
         else (form\<lparr>isSubmitting := False\<rparr>, handleSaveStudent now (formData form) st))"

section \<open>The course source\<close>

text \<open>
  The values \<^verbatim>\<open>response.json()\<close> can deliver, and \<^verbatim>\<open>undefined\<close> for a property that is
  absent. A number is an IEEE double: a finite one is the rational it denotes (the two zeros
  are one value here; both are falsy), and a literal too large for a double parses to an
  infinity.
\<close>

datatype js_number = Finite rat | PosInfinity | NegInfinity | NaN

datatype js_value =
    JUndefined
  | JNull
  | JBoolean bool
  | JNumber js_number
  | JString jsstring
  | JArray "js_value list"
  | JObject "(jsstring \<times> js_value) list"

datatype js_error = NetworkError | HttpError nat | SyntaxError | TypeError

fun truthy :: "js_value \<Rightarrow> bool" where
  "truthy JUndefined = False"
| "truthy JNull = False"
| "truthy (JBoolean b) = b"
| "truthy (JNumber (Finite q)) = (q \<noteq> 0)"
| "truthy (JNumber NaN) = False"
| "truthy (JNumber PosInfinity) = True"
| "truthy (JNumber NegInfinity) = True"
| "truthy (JString s) = (s \<noteq> [])"
| "truthy (JArray items) = True"
| "truthy (JObject props) = True"

text \<open>
  Reading one of the properties \<^verbatim>\<open>id\<close>, \<^verbatim>\<open>name\<close>, \<^verbatim>\<open>courseName\<close>, \<^verbatim>\<open>title\<close>: on \<^verbatim>\<open>null\<close> and
  \<^verbatim>\<open>undefined\<close> the read throws a \<^verbatim>\<open>TypeError\<close>; an object gives the property's value or
  \<^verbatim>\<open>undefined\<close>; a boolean, number, string or array has none of these four properties.
\<close>

fun get_prop :: "js_value \<Rightarrow> jsstring \<Rightarrow> js_error + js_value" where
  "get_prop JUndefined k = Inl TypeError"
| "get_prop JNull k = Inl TypeError"
| "get_prop (JObject props) k = (case map_of props k of Some v \<Rightarrow> Inr v | None \<Rightarrow> Inr JUndefined)"
| "get_prop v k = Inr JUndefined"

record course_rec =
  course_id :: js_value
  course_name :: js_value

text \<open>
  The arrow function \<^verbatim>\<open>fetchCourses\<close> maps over the array. The reads happen in the order of
  the source; \<^verbatim>\<open>a || b\<close> is \<open>a\<close> when \<open>a\<close> is truthy and reads \<open>b\<close> only otherwise. The
  parameter \<^verbatim>\<open>course\<close> of the source is \<open>item\<close>.
\<close>

definition normalize :: "js_value \<Rightarrow> js_error + course_rec" where
  "normalize item =
     (case get_prop item (js ''id'') of
        Inl e \<Rightarrow> Inl e
      | Inr i \<Rightarrow>
          (case get_prop item (js ''name'') of
             Inl e \<Rightarrow> Inl e
           | Inr n \<Rightarrow>
               if truthy n then Inr \<lparr>course_id = i, course_name = n\<rparr>
               else (case get_prop item (js ''courseName'') of
                       Inl e \<Rightarrow> Inl e
                     | Inr cn \<Rightarrow>
                         if truthy cn then Inr \<lparr>course_id = i, course_name = cn\<rparr>
                         else (case get_prop item (js ''title'') of
                                 Inl e \<Rightarrow> Inl e
                               | Inr t \<Rightarrow> Inr \<lparr>course_id = i, course_name = t\<rparr>))))"

text \<open>\<^verbatim>\<open>Array.prototype.map\<close> with a callback that may throw: the first throw ends the map.\<close>

fun map_throwing :: "('a \<Rightarrow> js_error + 'b) \<Rightarrow> 'a list \<Rightarrow> js_error + 'b list" where
  "map_throwing f [] = Inr []"
| "map_throwing f (x # xs) =
     (case f x of
        Inl e \<Rightarrow> Inl e
      | Inr y \<Rightarrow> (case map_throwing f xs of Inl e \<Rightarrow> Inl e | Inr ys \<Rightarrow> Inr (y # ys)))"

text \<open>
  What the network hands to \<^verbatim>\<open>fetchCourses\<close>: \<^verbatim>\<open>fetch\<close> rejects, or resolves to a response
  with a status and a body that \<^verbatim>\<open>response.json()\<close> parses or rejects. \<^verbatim>\<open>response.ok\<close> is
  true for the statuses 200 to 299.
\<close>

datatype body = Malformed | Json js_value

record response =
  status :: nat
  body :: body

datatype fetch_outcome = Rejected | Resolved response

definition ok :: "response \<Rightarrow> bool" where
  "ok r \<longleftrightarrow> 200 \<le> status r \<and> status r \<le> 299"

definition fallback_courses :: "course_rec list" where
  "fallback_courses =
     [\<lparr>course_id = JNumber (Finite 1), course_name = JString (js ''HTML Basics'')\<rparr>,
      \<lparr>course_id = JNumber (Finite 2), course_name = JString (js ''CSS Mastery'')\<rparr>,
      \<lparr>course_id = JNumber (Finite 3), course_name = JString (js ''JavaScript Pro'')\<rparr>,
      \<lparr>course_id = JNumber (Finite 4), course_name = JString (js ''React In Depth'')\<rparr>]"

text \<open>
  The \<^verbatim>\<open>try\<close> block of \<^verbatim>\<open>fetchCourses\<close>: \<open>Inl\<close> is a throw. \<^verbatim>\<open>courses.map\<close> is a function only
  when the parsed body is an array; on any other value the call throws a \<^verbatim>\<open>TypeError\<close>.
\<close>

definition fetchCourses_try :: "fetch_outcome \<Rightarrow> js_error + course_rec list" where
  "fetchCourses_try outcome =
     (case outcome of
        Rejected \<Rightarrow> Inl NetworkError
      | Resolved response \<Rightarrow>
          if \<not> ok response then Inl (HttpError (status response))
          else (case body response of
                  Malformed \<Rightarrow> Inl SyntaxError
                | Json courses \<Rightarrow>
                    (case courses of
                       JArray items \<Rightarrow> map_throwing normalize items
                     | _ \<Rightarrow> Inl TypeError)))"

text \<open>\<^verbatim>\<open>fetchCourses\<close>: the \<^verbatim>\<open>catch\<close> block turns every throw into the fallback list.\<close>

definition fetchCourses :: "fetch_outcome \<Rightarrow> js_error + course_rec list" where
  "fetchCourses outcome =
     (case fetchCourses_try outcome of
        Inr courses \<Rightarrow> Inr courses
      | Inl e \<Rightarrow> Inr fallback_courses)"

text \<open>A form filled in with valid data, for concrete inputs.\<close>

definition ann_form :: form_data where
  "ann_form = \<lparr>name = js ''Ann'', email = js ''a@x.com'', course = js ''CSS'', profileImage = []\<rparr>"

text \<open>
  A dashboard in the middle of an edit: three students, the one with id 7 open in the form;
  a form holding a valid change of that student's email; and the dashboard before any save.
\<close>

definition student7 :: student where
  "student7 = with_id ann_form 7"

definition editing7 :: dashboard where
  "editing7 =
     handleEditStudent student7
       \<lparr>students = [with_id ann_form 3, student7, with_id (ann_form\<lparr>name := js ''Bob''\<rparr>) 9],
        showForm = False, editingStudent = None, error = None\<rparr>"

definition valid_edit :: form_state where
  "valid_edit = \<lparr>formData = ann_form\<lparr>email := js ''ann@y.org''\<rparr>, errors = [], isSubmitting = False\<rparr>"

definition empty_dashboard :: dashboard where
  "empty_dashboard = \<lparr>students = [], showForm = False, editingStudent = None, error = None\<rparr>"

text \<open>
  The normalisation in the words of the specification: the id of the item is kept, and the
  name is the item's \<^verbatim>\<open>name\<close>, \<^verbatim>\<open>courseName\<close> or \<^verbatim>\<open>title\<close>, in that order of preference, the
  first one that is not empty winning (for a string, truthy and not empty are the same; when
  none is, the name is what \<^verbatim>\<open>title\<close> holds). \<open>prop_of\<close> is the value of a property of an
  item that is neither \<^verbatim>\<open>null\<close> nor \<^verbatim>\<open>undefined\<close>.
\<close>

definition prop_of :: "js_value \<Rightarrow> jsstring \<Rightarrow> js_value" where
  "prop_of item k = (case get_prop item k of Inr v \<Rightarrow> v | Inl e \<Rightarrow> JUndefined)"

definition normalized_course :: "js_value \<Rightarrow> course_rec" where
  "normalized_course item =
     \<lparr>course_id = prop_of item (js ''id''),
      course_name =
        (if truthy (prop_of item (js ''name'')) then prop_of item (js ''name'')
         else if truthy (prop_of item (js ''courseName'')) then prop_of item (js ''courseName'')
         else prop_of item (js ''title''))\<rparr>"



text \<open>A body the course endpoint may serve: three items with different name-like fields.\<close>

definition served_courses :: "js_value list" where
  "served_courses =
     [JObject [(js ''id'', JString (js ''1'')), (js ''name'', JString (js ''HTML'')),
               (js ''title'', JString (js ''Markup''))],
      JObject [(js ''id'', JString (js ''2'')), (js ''name'', JString []),
               (js ''courseName'', JString (js ''CSS'')), (js ''title'', JString (js ''Styling''))],
      JObject [(js ''id'', JNumber (Finite 3)), (js ''title'', JString (js ''React''))]]"

section \<open>The matcher decides the language\<close>

lemma nullable_lang: "nullable r \<longleftrightarrow> [] \<in> lang r"
  by (induction r) (auto intro: star.star_nil)

lemma star_cons:
  "c # w \<in> star A \<longleftrightarrow> (\<exists>u v. w = u @ v \<and> c # u \<in> A \<and> v \<in> star A)"
proof
  assume "c # w \<in> star A"
  then show "\<exists>u v. w = u @ v \<and> c # u \<in> A \<and> v \<in> star A"
  proof (induction "c # w" rule: star.induct)
    case (star_app u v)
    show ?case
    proof (cases u)
      case Nil
      with star_app show ?thesis by simp
    next
      case (Cons d u')
      with star_app have "w = u' @ v" "c # u' \<in> A" by auto
      with star_app show ?thesis by blast
    qed
  qed
next
  assume "\<exists>u v. w = u @ v \<and> c # u \<in> A \<and> v \<in> star A"
  then obtain u v where "w = u @ v" "c # u \<in> A" "v \<in> star A" by blast
  then show "c # w \<in> star A"
    using star.star_app [of "c # u" A v] by simp
qed

lemma deriv_lang: "lang (deriv c r) = {w. c # w \<in> lang r}"
proof (induction r)
  case (Seq a b)
  then show ?case
    by (auto simp: nullable_lang Cons_eq_append_conv)
next
  case (Star a)
  then show ?case by (auto simp: star_cons)
qed auto

lemma test_lang: "test r s \<longleftrightarrow> s \<in> lang r"
  by (induction s arbitrary: r) (simp_all add: nullable_lang deriv_lang)

lemma star_Class: "star {[c] | c. p c} = {w. list_all p w}"
proof (intro set_eqI iffI)
  fix w assume "w \<in> star {[c] | c. p c}"
  then show "w \<in> {w. list_all p w}"
    by (induction rule: star.induct) auto
next
  fix w assume "w \<in> {w. list_all p w}"
  then have "list_all p w" by simp
  then show "w \<in> star {[c] | c. p c}"
  proof (induction w)
    case Nil
    show ?case by (rule star.star_nil)
  next
    case (Cons c w)
    then have "[c] \<in> {[c] | c. p c}" "w \<in> star {[c] | c. p c}" by auto
    then have "[c] @ w \<in> star {[c] | c. p c}" by (rule star.star_app)
    then show ?case by simp
  qed
qed

lemma lang_Plus_Class: "lang (Plus (Class p)) = {w. w \<noteq> [] \<and> list_all p w}"
proof (intro set_eqI iffI)
  fix w assume "w \<in> lang (Plus (Class p))"
  then show "w \<in> {w. w \<noteq> [] \<and> list_all p w}"
    by (auto simp: Plus_def star_Class)
next
  fix w assume "w \<in> {w. w \<noteq> [] \<and> list_all p w}"
  then obtain c v where "w = [c] @ v" "p c" "list_all p v"
    by (cases w) auto
  then show "w \<in> lang (Plus (Class p))"
    unfolding Plus_def lang.simps star_Class by blast
qed

section \<open>Reading the validator\<close>

lemma lang_Class_eq: "lang (Class (\<lambda>c. c = k)) = {[k]}"
  by auto

lemma validateEmail_shape: "validateEmail e \<longleftrightarrow> email_shape e"
  unfolding validateEmail_def test_lang emailRegex_def email_shape_def
    lang.simps(5) lang_Plus_Class lang_Class_eq
  by (simp; blast)

lemma trim_empty: "trim s = [] \<longleftrightarrow> list_all is_space s"
proof -
  define d where "d = dropWhile is_space s"
  have "trim s = [] \<longleftrightarrow> (\<forall>x\<in>set d. is_space x)"
    by (simp add: trim_def d_def)
  also have "\<dots> \<longleftrightarrow> d = []"
  proof
    assume all: "\<forall>x\<in>set d. is_space x"
    show "d = []"
    proof (rule ccontr)
      assume "d \<noteq> []"
      then have "\<not> is_space (hd d)" "hd d \<in> set d"
        unfolding d_def by (simp_all add: hd_dropWhile)
      with all show False by blast
    qed
  qed simp
  also have "\<dots> \<longleftrightarrow> list_all is_space s"
    by (simp add: d_def list_all_iff)
  finally show ?thesis .
qed

lemma name_error:
  "get_error (validateStudent s) ''name'' = (if trim (name s) = [] then Some ''Name is required'' else None)"
  by (simp add: validateStudent_def set_prop_def get_error_def Let_def)

lemma email_error:
  "get_error (validateStudent s) ''email'' =
     (if trim (email s) = [] then Some ''Email is required''
      else if \<not> validateEmail (email s) then Some ''Please enter a valid email address''
      else None)"
  by (simp add: validateStudent_def set_prop_def get_error_def Let_def)

lemma course_error:
  "get_error (validateStudent s) ''course'' = (if course s = [] then Some ''Please select a course'' else None)"
  by (simp add: validateStudent_def set_prop_def get_error_def Let_def)

lemma keys_validateStudent:
  "keys (validateStudent s) =
     (if trim (name s) = [] then [''name''] else []) @
     (if trim (email s) = [] \<or> \<not> validateEmail (email s) then [''email''] else []) @
     (if course s = [] then [''course''] else [])"
  by (simp add: validateStudent_def set_prop_def keys_def Let_def)

section \<open>Claims about validation\<close>

text \<open>
  C10. A candidate whose course is a non-empty string of whitespace only gets no course
  error: the course rule looks at the raw string, without trimming. The same string as a
  name does get the name error, since the name rule trims.
\<close>

theorem validate_whitespace_course:
  assumes "course s \<noteq> []" and "list_all is_space (course s)"
  shows "get_error (validateStudent s) ''course'' = None
         \<and> ''course'' \<notin> set (keys (validateStudent s))
         \<and> (name s = course s \<longrightarrow> get_error (validateStudent s) ''name'' = Some ''Name is required'')"
  using assms by (simp add: course_error name_error keys_validateStudent trim_empty)

theorem validate_whitespace_course_witness:
  "course (ann_form\<lparr>course := js ''  ''\<rparr>) \<noteq> [] \<and> list_all is_space (course (ann_form\<lparr>course := js ''  ''\<rparr>))
   \<and> get_error (validateStudent (ann_form\<lparr>course := js ''  ''\<rparr>)) ''course'' = None
   \<and> validateStudent (ann_form\<lparr>course := js ''  ''\<rparr>) = []"
proof -
  have h: "course (ann_form\<lparr>course := js ''  ''\<rparr>) \<noteq> []" "list_all is_space (course (ann_form\<lparr>course := js ''  ''\<rparr>))"
    by (simp_all add: js_def is_space_def)
  have v: "validateStudent (ann_form\<lparr>course := js ''  ''\<rparr>) = []"
    by (simp add: validateStudent_def ann_form_def js_def trim_def is_space_def validateEmail_def
        emailRegex_def Plus_def not_space_at_def)
  show ?thesis using h v validate_whitespace_course [OF h] by simp
qed

text \<open>
  C8. A name error is present exactly when the trimmed name is empty, and the three rules
  are evaluated independently: each key is present exactly when its own field fails, and the
  keys of all failing fields are returned together, in the order name, email, course.
\<close>

theorem validateStudent_all_rules:
  "(get_error (validateStudent s) ''name'' \<noteq> None \<longleftrightarrow> trim (name s) = [])
   \<and> (get_error (validateStudent s) ''email'' \<noteq> None \<longleftrightarrow>
        trim (email s) = [] \<or> \<not> validateEmail (email s))
   \<and> (get_error (validateStudent s) ''course'' \<noteq> None \<longleftrightarrow> course s = [])
   \<and> keys (validateStudent s) =
        (if trim (name s) = [] then [''name''] else []) @
        (if trim (email s) = [] \<or> \<not> validateEmail (email s) then [''email''] else []) @
        (if course s = [] then [''course''] else [])"
  by (simp add: name_error email_error course_error keys_validateStudent)

theorem validateStudent_all_rules_witness:
  "keys (validateStudent \<lparr>name = js '' '', email = js ''a@b'', course = [], profileImage = []\<rparr>)
     = [''name'', ''email'', ''course'']
   \<and> get_error (validateStudent \<lparr>name = js '' '', email = js ''a@b'', course = [], profileImage = []\<rparr>) ''name'' \<noteq> None
   \<and> get_error (validateStudent ann_form) ''name'' = None"
proof -
  have a: "trim (js '' '') = []" "\<not> validateEmail (js ''a@b'')"
    by (simp_all add: js_def trim_def is_space_def validateEmail_def emailRegex_def Plus_def not_space_at_def)
  have b: "trim (name ann_form) \<noteq> []"
    by (simp add: ann_form_def js_def trim_def is_space_def)
  show ?thesis
    using a b validateStudent_all_rules [of "\<lparr>name = js '' '', email = js ''a@b'', course = [], profileImage = []\<rparr>"]
      validateStudent_all_rules [of ann_form]
    by simp
qed

text \<open>
  C3, as the specification words the pattern, fails: the address \<^verbatim>\<open>a@b.c@d\<close> has the shape
  the specification describes (its last part \<^verbatim>\<open>c@d\<close> has no whitespace), its trimmed value is
  not empty, and the validator still reports the invalid-format error.
\<close>

theorem validate_email_spec_pattern_counterexample:
  "spec_email_shape (js ''a@b.c@d'') \<and> trim (js ''a@b.c@d'') \<noteq> []
   \<and> get_error (validateStudent (ann_form\<lparr>email := js ''a@b.c@d''\<rparr>)) ''email''
       = Some ''Please enter a valid email address''"
proof -
  have "js ''a@b.c@d'' = js ''a'' @ [0x40] @ js ''b'' @ [0x2E] @ js ''c@d''"
    by (simp add: js_def)
  moreover have "js ''a'' \<noteq> [] \<and> list_all not_space_at (js ''a'')"
    "js ''b'' \<noteq> [] \<and> list_all not_space_at (js ''b'')"
    "js ''c@d'' \<noteq> [] \<and> list_all (\<lambda>c. \<not> is_space c) (js ''c@d'')"
    by (simp_all add: js_def not_space_at_def is_space_def)
  ultimately have "spec_email_shape (js ''a@b.c@d'')"
    unfolding spec_email_shape_def by blast
  moreover have "trim (js ''a@b.c@d'') \<noteq> []"
    by (simp add: js_def trim_def is_space_def)
  moreover have "get_error (validateStudent (ann_form\<lparr>email := js ''a@b.c@d''\<rparr>)) ''email''
       = Some ''Please enter a valid email address''"
    by (simp add: validateStudent_def get_error_def set_prop_def ann_form_def js_def trim_def is_space_def
        validateEmail_def emailRegex_def Plus_def not_space_at_def)
  ultimately show ?thesis by simp
qed

text \<open>
  C3, amended. The email error is "Email is required" exactly when the trimmed email is
  empty; otherwise it is "Please enter a valid email address" exactly when the email lacks
  the shape of the regular expression, whose last part, like the first two, is one or more
  code units that are neither whitespace nor an at sign.
\<close>

theorem validate_email_rule:
  "(get_error (validateStudent s) ''email'' = Some ''Email is required'' \<longleftrightarrow> trim (email s) = [])
   \<and> (trim (email s) \<noteq> [] \<longrightarrow>
        (get_error (validateStudent s) ''email'' = Some ''Please enter a valid email address''
           \<longleftrightarrow> \<not> email_shape (email s)))
   \<and> (get_error (validateStudent s) ''email'' = None \<longleftrightarrow>
        trim (email s) \<noteq> [] \<and> email_shape (email s))"
  by (simp add: email_error validateEmail_shape)

theorem validate_email_rule_witness:
  "trim (email (ann_form\<lparr>email := js ''a@b''\<rparr>)) \<noteq> []
   \<and> \<not> email_shape (js ''a@b'')
   \<and> get_error (validateStudent (ann_form\<lparr>email := js ''a@b''\<rparr>)) ''email''
       = Some ''Please enter a valid email address''
   \<and> email_shape (js ''student@example.com'')
   \<and> get_error (validateStudent (ann_form\<lparr>email := js ''student@example.com''\<rparr>)) ''email'' = None
   \<and> get_error (validateStudent (ann_form\<lparr>email := []\<rparr>)) ''email'' = Some ''Email is required''"
proof -
  have t: "trim (js ''a@b'') \<noteq> []" "trim [] = []"
    by (simp_all add: js_def trim_def is_space_def)
  have e1: "get_error (validateStudent (ann_form\<lparr>email := js ''a@b''\<rparr>)) ''email''
       = Some ''Please enter a valid email address''"
    by (simp add: validateStudent_def get_error_def set_prop_def ann_form_def js_def trim_def is_space_def
        validateEmail_def emailRegex_def Plus_def not_space_at_def)
  have e2: "get_error (validateStudent (ann_form\<lparr>email := js ''student@example.com''\<rparr>)) ''email'' = None"
    by (simp add: validateStudent_def get_error_def set_prop_def ann_form_def js_def trim_def is_space_def
        validateEmail_def emailRegex_def Plus_def not_space_at_def)
  show ?thesis
    using t e1 e2 validate_email_rule [of "ann_form\<lparr>email := js ''a@b''\<rparr>"]
      validate_email_rule [of "ann_form\<lparr>email := js ''student@example.com''\<rparr>"]
      validate_email_rule [of "ann_form\<lparr>email := []\<rparr>"]
    by simp
qed

section \<open>Saving a student\<close>

lemma handleSaveStudent_update:
  "editingStudent st = Some e \<Longrightarrow>
   students (handleSaveStudent now fd st) =
     map (\<lambda>s. if student_id s = student_id e then with_id fd (student_id e) else s) (students st)"
  by (simp add: handleSaveStudent_def updateStudent_def)

lemma handleSaveStudent_add:
  "editingStudent st = None \<Longrightarrow>
   students (handleSaveStudent now fd st) = students st @ [with_id fd now]"
  by (simp add: handleSaveStudent_def addStudent_def)

lemma student_id_with_id: "student_id (with_id fd i) = i"
  by (simp add: with_id_def)

lemma handleAddStudent_simps:
  "editingStudent (handleAddStudent st) = None" "students (handleAddStudent st) = students st"
  by (simp_all add: handleAddStudent_def)

lemma add_saves_ids:
  "map student_id (students (add_saves saves st)) = map student_id (students st) @ map fst saves"
proof (induction saves arbitrary: st)
  case Nil
  show ?case by simp
next
  case (Cons p saves)
  obtain now fd where p: "p = (now, fd)" by (cases p)
  show ?case
    by (simp add: p Cons.IH handleSaveStudent_add handleAddStudent_simps student_id_with_id)
qed

lemma add_saves_append: "add_saves (xs @ ys) st = add_saves ys (add_saves xs st)"
  by (induction xs arbitrary: st) auto

lemma add_saves_snoc:
  "students (add_saves (pre @ [(now, fd)]) st) =
     students (add_saves pre st) @
       [\<lparr>name = name fd, email = email fd, course = course fd,
         profileImage = profileImage fd, student_id = now\<rparr>]"
  by (simp add: add_saves_append handleSaveStudent_def handleAddStudent_def addStudent_def with_id_def)


text \<open>
  C4. A submission whose validation yields at least one field error aborts: the errors are
  put into the form's \<^verbatim>\<open>errors\<close> state and the dashboard, its student list included, is the
  one before the submission. In the edit scenario the student with id 7 keeps its email.
\<close>

theorem invalid_submit_aborts:
  assumes "keys (validateStudent (formData form)) \<noteq> []"
  shows "handleSubmit now form st = (form\<lparr>errors := validateStudent (formData form)\<rparr>, st)"
  using assms by (simp add: handleSubmit_def Let_def)

theorem invalid_submit_aborts_witness:
  "keys (validateStudent (ann_form\<lparr>email := js ''bad-email''\<rparr>)) \<noteq> []
   \<and> get_error (errors (fst (handleSubmit 1000
        \<lparr>formData = ann_form\<lparr>email := js ''bad-email''\<rparr>, errors = [], isSubmitting = False\<rparr> editing7)))
        ''email'' = Some ''Please enter a valid email address''
   \<and> snd (handleSubmit 1000
        \<lparr>formData = ann_form\<lparr>email := js ''bad-email''\<rparr>, errors = [], isSubmitting = False\<rparr> editing7)
       = editing7
   \<and> student7 \<in> set (students editing7) \<and> email student7 = js ''a@x.com''"
proof -
  have v: "validateStudent (ann_form\<lparr>email := js ''bad-email''\<rparr>)
           = [(''email'', ''Please enter a valid email address'')]"
    by (simp add: validateStudent_def set_prop_def ann_form_def js_def trim_def is_space_def
        validateEmail_def emailRegex_def Plus_def not_space_at_def)
  have h: "keys (validateStudent (formData
             \<lparr>formData = ann_form\<lparr>email := js ''bad-email''\<rparr>, errors = [], isSubmitting = False\<rparr>)) \<noteq> []"
    by (simp add: v keys_def)
  have s: "student7 \<in> set (students editing7)" "email student7 = js ''a@x.com''"
    by (simp_all add: editing7_def handleEditStudent_def student7_def with_id_def ann_form_def)
  show ?thesis
    using h s invalid_submit_aborts [OF h, of 1000 editing7]
    by (simp add: v get_error_def)
qed

text \<open>
  C7. A valid submission in update mode keeps the length of the list and the id at every
  position; every position that held the edited id now holds the name, email, course and
  profile image of the form under that id, and every other position holds the student it
  held before.
\<close>

theorem update_save_frame:
  assumes "keys (validateStudent (formData form)) = []"
    and "editingStudent st = Some e"
  shows "length (students (snd (handleSubmit now form st))) = length (students st)
       \<and> map student_id (students (snd (handleSubmit now form st))) = map student_id (students st)
       \<and> (\<forall>i < length (students st).
            (student_id (students st ! i) = student_id e \<longrightarrow>
               students (snd (handleSubmit now form st)) ! i =
                 \<lparr>name = name (formData form), email = email (formData form),
                  course = course (formData form), profileImage = profileImage (formData form),
                  student_id = student_id e\<rparr>)
          \<and> (student_id (students st ! i) \<noteq> student_id e \<longrightarrow>
               students (snd (handleSubmit now form st)) ! i = students st ! i))"
proof -
  let ?updated = "\<lparr>name = name (formData form), email = email (formData form),
                  course = course (formData form), profileImage = profileImage (formData form),
                  student_id = student_id e\<rparr>"
  have eq: "students (snd (handleSubmit now form st)) =
      map (\<lambda>s. if student_id s = student_id e then ?updated else s) (students st)"
    using assms by (simp add: handleSubmit_def Let_def handleSaveStudent_update with_id_def)
  show ?thesis
    unfolding eq by (simp add: comp_def)
qed

theorem update_save_frame_witness:
  "keys (validateStudent (formData valid_edit)) = []
   \<and> editingStudent editing7 = Some student7
   \<and> students editing7 =
        [\<lparr>name = js ''Ann'', email = js ''a@x.com'', course = js ''CSS'', profileImage = [],
          student_id = 3\<rparr>,
         \<lparr>name = js ''Ann'', email = js ''a@x.com'', course = js ''CSS'', profileImage = [],
          student_id = 7\<rparr>,
         \<lparr>name = js ''Bob'', email = js ''a@x.com'', course = js ''CSS'', profileImage = [],
          student_id = 9\<rparr>]
   \<and> student_id student7 = 7
   \<and> students (snd (handleSubmit 1000 valid_edit editing7)) =
        [\<lparr>name = js ''Ann'', email = js ''a@x.com'', course = js ''CSS'', profileImage = [],
          student_id = 3\<rparr>,
         \<lparr>name = js ''Ann'', email = js ''ann@y.org'', course = js ''CSS'', profileImage = [],
          student_id = 7\<rparr>,
         \<lparr>name = js ''Bob'', email = js ''a@x.com'', course = js ''CSS'', profileImage = [],
          student_id = 9\<rparr>]"
proof -
  have v: "validateStudent (formData valid_edit) = []"
    by (simp add: valid_edit_def validateStudent_def set_prop_def ann_form_def js_def trim_def is_space_def
        validateEmail_def emailRegex_def Plus_def not_space_at_def)
  have h: "keys (validateStudent (formData valid_edit)) = []" "editingStudent editing7 = Some student7"
    by (simp_all add: v keys_def editing7_def handleEditStudent_def)
  have l: "students editing7 =
        [\<lparr>name = js ''Ann'', email = js ''a@x.com'', course = js ''CSS'', profileImage = [],
          student_id = 3\<rparr>,
         \<lparr>name = js ''Ann'', email = js ''a@x.com'', course = js ''CSS'', profileImage = [],
          student_id = 7\<rparr>,
         \<lparr>name = js ''Bob'', email = js ''a@x.com'', course = js ''CSS'', profileImage = [],
          student_id = 9\<rparr>]"
    by (simp add: editing7_def handleEditStudent_def student7_def with_id_def ann_form_def)
  have s: "student_id student7 = 7"
    by (simp add: student7_def with_id_def)
  have f: "formData valid_edit =
      \<lparr>name = js ''Ann'', email = js ''ann@y.org'', course = js ''CSS'', profileImage = []\<rparr>"
    by (simp add: valid_edit_def ann_form_def)
  have "students (snd (handleSubmit 1000 valid_edit editing7)) ! 0 =
          \<lparr>name = js ''Ann'', email = js ''a@x.com'', course = js ''CSS'', profileImage = [],
           student_id = 3\<rparr>"
    "students (snd (handleSubmit 1000 valid_edit editing7)) ! 1 =
          \<lparr>name = js ''Ann'', email = js ''ann@y.org'', course = js ''CSS'', profileImage = [],
           student_id = 7\<rparr>"
    "students (snd (handleSubmit 1000 valid_edit editing7)) ! 2 =
          \<lparr>name = js ''Bob'', email = js ''a@x.com'', course = js ''CSS'', profileImage = [],
           student_id = 9\<rparr>"
    "length (students (snd (handleSubmit 1000 valid_edit editing7))) = 3"
    using update_save_frame [OF h, of 1000] by (simp_all add: l f s)
  then have r: "students (snd (handleSubmit 1000 valid_edit editing7)) =
        [\<lparr>name = js ''Ann'', email = js ''a@x.com'', course = js ''CSS'', profileImage = [],
          student_id = 3\<rparr>,
         \<lparr>name = js ''Ann'', email = js ''ann@y.org'', course = js ''CSS'', profileImage = [],
          student_id = 7\<rparr>,
         \<lparr>name = js ''Bob'', email = js ''a@x.com'', course = js ''CSS'', profileImage = [],
          student_id = 9\<rparr>]"
    by (simp add: list_eq_iff_nth_eq nth_Cons' less_Suc_eq eval_nat_numeral)
  show ?thesis
    using h l s r by simp
qed

text \<open>
  C1, as stated, fails: the id of a new student is the clock reading of its save, and
  nothing compares it with the ids in the list. Two add flows that complete at the same
  reading leave two students with the same id.
\<close>

theorem add_saves_same_reading_counterexample:
  "\<not> distinct (map student_id (students
       (add_saves [(1700000000000, ann_form), (1700000000000, ann_form\<lparr>name := js ''Bob''\<rparr>)]
          empty_dashboard)))"
  by (simp add: handleSaveStudent_def handleAddStudent_def addStudent_def with_id_def
      empty_dashboard_def)

text \<open>
  C1, amended. When the clock readings of a run of add flows are pairwise distinct and
  none of them is an id already in the list, every save appends one student that carries
  the form data of the save under its clock reading as id, and that id is not among the ids
  of the students already in the list. If the ids in the list were pairwise distinct before
  the run, they are so after it.
\<close>

theorem add_saves_distinct_ids:
  assumes "distinct (map fst saves)"
    and "set (map fst saves) \<inter> set (map student_id (students st)) = {}"
  shows "map student_id (students (add_saves saves st)) = map student_id (students st) @ map fst saves
       \<and> (\<forall>pre now fd post. saves = pre @ (now, fd) # post \<longrightarrow>
            students (add_saves (pre @ [(now, fd)]) st) =
              students (add_saves pre st) @
                [\<lparr>name = name fd, email = email fd, course = course fd,
                  profileImage = profileImage fd, student_id = now\<rparr>]
            \<and> now \<notin> set (map student_id (students (add_saves pre st))))
       \<and> (distinct (map student_id (students st)) \<longrightarrow>
            distinct (map student_id (students (add_saves saves st))))"
proof (intro conjI allI impI)
  show "map student_id (students (add_saves saves st)) = map student_id (students st) @ map fst saves"
    by (rule add_saves_ids)
next
  fix pre now fd post
  assume split: "saves = pre @ (now, fd) # post"
  show "students (add_saves (pre @ [(now, fd)]) st) =
          students (add_saves pre st) @
            [\<lparr>name = name fd, email = email fd, course = course fd,
              profileImage = profileImage fd, student_id = now\<rparr>]"
    by (rule add_saves_snoc)
  have "now \<notin> set (map fst pre)"
    using assms(1) split by auto
  moreover have "now \<notin> set (map student_id (students st))"
    using assms(2) split by auto
  ultimately show "now \<notin> set (map student_id (students (add_saves pre st)))"
    by (simp add: add_saves_ids)
next
  assume "distinct (map student_id (students st))"
  with assms show "distinct (map student_id (students (add_saves saves st)))"
    by (auto simp: add_saves_ids)
qed

theorem add_saves_distinct_ids_witness:
  "distinct (map fst [(1700000000000::int, ann_form), (1700000000001, ann_form\<lparr>name := js ''Bob''\<rparr>)])
   \<and> set (map fst [(1700000000000::int, ann_form), (1700000000001, ann_form\<lparr>name := js ''Bob''\<rparr>)])
        \<inter> set (map student_id (students empty_dashboard)) = {}
   \<and> distinct (map student_id (students empty_dashboard))
   \<and> students (add_saves [(1700000000000, ann_form)] empty_dashboard) =
       [\<lparr>name = js ''Ann'', email = js ''a@x.com'', course = js ''CSS'', profileImage = [],
         student_id = 1700000000000\<rparr>]
   \<and> students (add_saves [(1700000000000, ann_form), (1700000000001, ann_form\<lparr>name := js ''Bob''\<rparr>)]
        empty_dashboard) =
       [\<lparr>name = js ''Ann'', email = js ''a@x.com'', course = js ''CSS'', profileImage = [],
         student_id = 1700000000000\<rparr>,
        \<lparr>name = js ''Bob'', email = js ''a@x.com'', course = js ''CSS'', profileImage = [],
         student_id = 1700000000001\<rparr>]
   \<and> (1700000000001::int) \<notin> set (map student_id
         (students (add_saves [(1700000000000, ann_form)] empty_dashboard)))
   \<and> distinct (map student_id (students
         (add_saves [(1700000000000, ann_form), (1700000000001, ann_form\<lparr>name := js ''Bob''\<rparr>)]
            empty_dashboard)))"
proof -
  let ?bob = "ann_form\<lparr>name := js ''Bob''\<rparr>"
  let ?saves = "[(1700000000000::int, ann_form), (1700000000001, ?bob)]"
  have h: "distinct (map fst ?saves)"
    "set (map fst ?saves) \<inter> set (map student_id (students empty_dashboard)) = {}"
    by (simp_all add: empty_dashboard_def)
  have d: "distinct (map student_id (students empty_dashboard))"
    by (simp add: empty_dashboard_def)
  note t = add_saves_distinct_ids [OF h]
  have s1: "?saves = [] @ (1700000000000, ann_form) # [(1700000000001, ?bob)]"
    and s2: "?saves = [(1700000000000, ann_form)] @ (1700000000001, ?bob) # []"
    by simp_all
  have a: "students (add_saves ([] @ [(1700000000000, ann_form)]) empty_dashboard) =
      students (add_saves [] empty_dashboard) @
        [\<lparr>name = name ann_form, email = email ann_form, course = course ann_form,
          profileImage = profileImage ann_form, student_id = 1700000000000\<rparr>]"
    using t s1 by blast
  have b: "students (add_saves ([(1700000000000, ann_form)] @ [(1700000000001, ?bob)]) empty_dashboard) =
      students (add_saves [(1700000000000, ann_form)] empty_dashboard) @
        [\<lparr>name = name ?bob, email = email ?bob, course = course ?bob,
          profileImage = profileImage ?bob, student_id = 1700000000001\<rparr>]"
    and c: "1700000000001 \<notin> set (map student_id
         (students (add_saves [(1700000000000, ann_form)] empty_dashboard)))"
    using t s2 by blast+
  have e: "distinct (map student_id (students (add_saves ?saves empty_dashboard)))"
    using t d by blast
  have a': "students (add_saves [(1700000000000, ann_form)] empty_dashboard) =
       [\<lparr>name = js ''Ann'', email = js ''a@x.com'', course = js ''CSS'', profileImage = [],
         student_id = 1700000000000\<rparr>]"
    using a by (simp add: empty_dashboard_def ann_form_def)
  have b': "students (add_saves ?saves empty_dashboard) =
       [\<lparr>name = js ''Ann'', email = js ''a@x.com'', course = js ''CSS'', profileImage = [],
         student_id = 1700000000000\<rparr>,
        \<lparr>name = js ''Bob'', email = js ''a@x.com'', course = js ''CSS'', profileImage = [],
         student_id = 1700000000001\<rparr>]"
    using b a' by (simp add: ann_form_def)
  show ?thesis
    using h d a' b' c e by simp
qed

section \<open>Claims about the filtered projection\<close>
















text \<open>C6. With the empty search term the projection is the student list itself.\<close>

theorem filteredStudents_empty_term:
  "filteredStudents toLowerCase studs [] = studs"
  by (simp add: filteredStudents_def)

theorem filteredStudents_empty_term_witness:
  "filteredStudents toLowerCase_ascii (students editing7) [] = students editing7
   \<and> length (students editing7) = 3"
  using filteredStudents_empty_term [of toLowerCase_ascii "students editing7"]
  by (simp add: editing7_def handleEditStudent_def)

section \<open>Claims about the course source\<close>

lemma map_throwing_Inr:
  "\<forall>x\<in>set xs. f x = Inr (g x) \<Longrightarrow> map_throwing f xs = Inr (map g xs)"
  by (induction xs) simp_all

lemma map_throwing_Inl:
  "x \<in> set xs \<Longrightarrow> f x = Inl e \<Longrightarrow> \<exists>e'. map_throwing f xs = Inl e'"
  by (induction xs) (auto split: sum.splits)

lemma normalize_null: "normalize JNull = Inl TypeError"
  by (simp add: normalize_def)

lemma normalize_eq:
  "item \<noteq> JNull \<Longrightarrow> item \<noteq> JUndefined \<Longrightarrow> normalize item = Inr (normalized_course item)"
  by (cases item) (simp_all add: normalize_def normalized_course_def prop_of_def split: option.splits)

lemma fetchCourses_total: "\<exists>courses. fetchCourses outcome = Inr courses"
  by (simp add: fetchCourses_def split: sum.splits)

lemma fetchCourses_catch:
  "fetchCourses_try outcome = Inl e \<Longrightarrow> fetchCourses outcome = Inr fallback_courses"
  by (simp add: fetchCourses_def)

text \<open>
  C2. \<^verbatim>\<open>fetchCourses\<close> always returns a list and never throws. Whenever its \<^verbatim>\<open>try\<close> block
  throws, it returns the fallback list: when the request is rejected, when the status is not
  one of 200 to 299, when the body does not parse, when the parsed body is not an array, and
  when an item of the array is \<^verbatim>\<open>null\<close>. The fallback list is the four courses HTML Basics,
  CSS Mastery, JavaScript Pro and React In Depth with the ids 1 to 4, in that order.
\<close>

theorem fetchCourses_fallback:
  "(\<exists>courses. fetchCourses outcome = Inr courses)
   \<and> (\<forall>e. fetchCourses_try outcome = Inl e \<longrightarrow> fetchCourses outcome = Inr fallback_courses)
   \<and> fetchCourses Rejected = Inr fallback_courses
   \<and> (\<not> ok r \<longrightarrow> fetchCourses (Resolved r) = Inr fallback_courses)
   \<and> (body r = Malformed \<longrightarrow> fetchCourses (Resolved r) = Inr fallback_courses)
   \<and> (body r = Json v \<and> (\<forall>items. v \<noteq> JArray items) \<longrightarrow>
        fetchCourses (Resolved r) = Inr fallback_courses)
   \<and> (body r = Json (JArray items) \<and> JNull \<in> set items \<longrightarrow>
        fetchCourses (Resolved r) = Inr fallback_courses)
   \<and> fallback_courses =
       [\<lparr>course_id = JNumber (Finite 1), course_name = JString (js ''HTML Basics'')\<rparr>,
        \<lparr>course_id = JNumber (Finite 2), course_name = JString (js ''CSS Mastery'')\<rparr>,
        \<lparr>course_id = JNumber (Finite 3), course_name = JString (js ''JavaScript Pro'')\<rparr>,
        \<lparr>course_id = JNumber (Finite 4), course_name = JString (js ''React In Depth'')\<rparr>]"
proof -
  have 1: "fetchCourses Rejected = Inr fallback_courses"
    by (simp add: fetchCourses_def fetchCourses_try_def)
  have 2: "\<not> ok r \<longrightarrow> fetchCourses (Resolved r) = Inr fallback_courses"
    by (simp add: fetchCourses_def fetchCourses_try_def)
  have 3: "body r = Malformed \<longrightarrow> fetchCourses (Resolved r) = Inr fallback_courses"
    by (simp add: fetchCourses_def fetchCourses_try_def)
  have 4: "body r = Json v \<and> (\<forall>items. v \<noteq> JArray items) \<longrightarrow>
        fetchCourses (Resolved r) = Inr fallback_courses"
    by (cases v) (simp_all add: fetchCourses_def fetchCourses_try_def)
  have 5: "body r = Json (JArray items) \<and> JNull \<in> set items \<longrightarrow>
        fetchCourses (Resolved r) = Inr fallback_courses"
  proof
    assume a: "body r = Json (JArray items) \<and> JNull \<in> set items"
    then obtain e where "map_throwing normalize items = Inl e"
      using map_throwing_Inl [of JNull items normalize TypeError] normalize_null by blast
    with a have "\<exists>e. fetchCourses_try (Resolved r) = Inl e"
      by (simp add: fetchCourses_try_def)
    then show "fetchCourses (Resolved r) = Inr fallback_courses"
      using fetchCourses_catch by blast
  qed
  show ?thesis
    using 1 2 3 4 5 fetchCourses_total [of outcome] fetchCourses_catch [of outcome]
    by (simp add: fallback_courses_def)
qed

theorem fetchCourses_fallback_witness:
  "\<not> ok \<lparr>status = 500, body = Json (JArray [])\<rparr>
   \<and> fetchCourses_try (Resolved \<lparr>status = 500, body = Json (JArray [])\<rparr>) = Inl (HttpError 500)
   \<and> fetchCourses (Resolved \<lparr>status = 500, body = Json (JArray [])\<rparr>) = Inr fallback_courses
   \<and> fetchCourses Rejected = Inr fallback_courses
   \<and> fetchCourses (Resolved \<lparr>status = 200, body = Malformed\<rparr>) = Inr fallback_courses
   \<and> fetchCourses (Resolved \<lparr>status = 200, body = Json (JObject [])\<rparr>) = Inr fallback_courses
   \<and> fetchCourses (Resolved \<lparr>status = 200, body = Json (JArray [JNull])\<rparr>) = Inr fallback_courses
   \<and> length fallback_courses = 4"
proof -
  have h: "\<not> ok \<lparr>status = 500, body = Json (JArray [])\<rparr>"
    by (simp add: ok_def)
  have t: "fetchCourses_try (Resolved \<lparr>status = 500, body = Json (JArray [])\<rparr>) = Inl (HttpError 500)"
    by (simp add: fetchCourses_try_def ok_def)
  have l: "length fallback_courses = 4"
    by (simp add: fallback_courses_def)
  have a: "fetchCourses (Resolved \<lparr>status = 500, body = Json (JArray [])\<rparr>) = Inr fallback_courses"
    "fetchCourses Rejected = Inr fallback_courses"
    using h fetchCourses_fallback [of "Resolved \<lparr>status = 500, body = Json (JArray [])\<rparr>"
        "\<lparr>status = 500, body = Json (JArray [])\<rparr>" "JArray []" "[]"]
    by simp_all
  have b: "fetchCourses (Resolved \<lparr>status = 200, body = Malformed\<rparr>) = Inr fallback_courses"
    using fetchCourses_fallback [of Rejected "\<lparr>status = 200, body = Malformed\<rparr>" JNull "[]"]
    by simp
  have c: "fetchCourses (Resolved \<lparr>status = 200, body = Json (JObject [])\<rparr>) = Inr fallback_courses"
    using fetchCourses_fallback [of Rejected "\<lparr>status = 200, body = Json (JObject [])\<rparr>" "JObject []" "[]"]
    by simp
  have d: "fetchCourses (Resolved \<lparr>status = 200, body = Json (JArray [JNull])\<rparr>) = Inr fallback_courses"
    using fetchCourses_fallback [of Rejected "\<lparr>status = 200, body = Json (JArray [JNull])\<rparr>"
        "JArray [JNull]" "[JNull]"]
    by simp
  show ?thesis using h t l a b c d by simp
qed

text \<open>
  C9. On a successful fetch (status 200 to 299, a body that parses to an array with no
  \<^verbatim>\<open>null\<close> item) the result is the array with every item normalised: its id kept and its name
  the first non-empty one of \<^verbatim>\<open>name\<close>, \<^verbatim>\<open>courseName\<close> and \<^verbatim>\<open>title\<close>.
\<close>

theorem fetchCourses_normalizes:
  assumes "ok r" and "body r = Json (JArray items)"
    and "JNull \<notin> set items" and "JUndefined \<notin> set items"
  shows "fetchCourses (Resolved r) = Inr (map normalized_course items)"
proof -
  have "\<forall>x\<in>set items. normalize x = Inr (normalized_course x)"
    using assms(3,4) by (auto intro: normalize_eq)
  then have "map_throwing normalize items = Inr (map normalized_course items)"
    by (rule map_throwing_Inr)
  with assms(1,2) show ?thesis
    by (simp add: fetchCourses_def fetchCourses_try_def)
qed

theorem fetchCourses_normalizes_witness:
  "ok \<lparr>status = 200, body = Json (JArray served_courses)\<rparr>
   \<and> body \<lparr>status = 200, body = Json (JArray served_courses)\<rparr> = Json (JArray served_courses)
   \<and> JNull \<notin> set served_courses \<and> JUndefined \<notin> set served_courses
   \<and> fetchCourses (Resolved \<lparr>status = 200, body = Json (JArray served_courses)\<rparr>) =
       Inr [\<lparr>course_id = JString (js ''1''), course_name = JString (js ''HTML'')\<rparr>,
            \<lparr>course_id = JString (js ''2''), course_name = JString (js ''CSS'')\<rparr>,
            \<lparr>course_id = JNumber (Finite 3), course_name = JString (js ''React'')\<rparr>]"
proof -
  have h: "ok \<lparr>status = 200, body = Json (JArray served_courses)\<rparr>"
    "body \<lparr>status = 200, body = Json (JArray served_courses)\<rparr> = Json (JArray served_courses)"
    "JNull \<notin> set served_courses" "JUndefined \<notin> set served_courses"
    by (simp_all add: ok_def served_courses_def)
  have n: "map normalized_course served_courses =
      [\<lparr>course_id = JString (js ''1''), course_name = JString (js ''HTML'')\<rparr>,
       \<lparr>course_id = JString (js ''2''), course_name = JString (js ''CSS'')\<rparr>,
       \<lparr>course_id = JNumber (Finite 3), course_name = JString (js ''React'')\<rparr>]"
    by (simp add: served_courses_def normalized_course_def prop_of_def js_def)
  show ?thesis
    using h fetchCourses_normalizes [OF h] by (simp add: n)
qed

end
